theory Spec2Isabelle
  imports Complex_Main
begin

section \<open>JavaScript values used by the retrieval adapter\<close>

text \<open>
  Strings are byte lists. The adapter only splits on \<open>/\<close>, replaces \<open>_\<close> and
  \<open>.txt\<close>, and concatenates; these ASCII operations act alike on UTF-8 bytes and on
  UTF-16 code units, so nothing below depends on the encoding.

  A JavaScript \<open>number\<close> is carried through unchanged by the code; the only operation on
  it is the truthiness test of \<open>||\<close>, which fails for zero and for NaN.
\<close>

datatype js_number = Num real | NaN

fun truthy_number :: "js_number \<Rightarrow> bool" where
  "truthy_number (Num x) = (x \<noteq> 0)"
| "truthy_number NaN = False"

text \<open>The SDK's \<open>DocumentType\<close>: the type of a metadata value.\<close>

datatype document =
    DNull
  | DBool bool
  | DNum js_number
  | DStr string
  | DArray "document list"
  | DObject "(string \<times> document) list"

fun truthy_document :: "document \<Rightarrow> bool" where
  "truthy_document DNull = False"
| "truthy_document (DBool b) = b"
| "truthy_document (DNum x) = truthy_number x"
| "truthy_document (DStr s) = (s \<noteq> [])"
| "truthy_document (DArray xs) = True"
| "truthy_document (DObject kvs) = True"

text \<open>What a \<open>throw\<close> carries: an \<open>Error\<close> object (name, message) or any other value.\<close>

datatype js_error = Error string string | NonError

text \<open>
  The state of an awaited promise: it resolves with a value, rejects with a thrown
  value, or never settles.
\<close>

datatype 'a promise = Fulfilled 'a | Rejected js_error | Pending

subsection \<open>String helpers of the JavaScript runtime\<close>

text \<open>Decimal rendering of an array index inside a template literal.\<close>

definition digit_char :: "nat \<Rightarrow> char" where
  "digit_char d = ''0123456789'' ! d"

fun string_of_nat :: "nat \<Rightarrow> string" where
  "string_of_nat n =
     (if n < 10 then [digit_char n]
      else string_of_nat (n div 10) @ [digit_char (n mod 10)])"

declare string_of_nat.simps [simp del]

text \<open>
  \<open>String.prototype.split\<close> with a one-character separator. The result is never
  empty, so the first branch of the \<open>case\<close> is never taken.
\<close>

fun split :: "char \<Rightarrow> string \<Rightarrow> string list" where
  "split sep [] = [[]]"
| "split sep (c # cs) =
     (if c = sep then [] # split sep cs
      else (case split sep cs of
              [] \<Rightarrow> [[c]]
            | seg # segs \<Rightarrow> (c # seg) # segs))"

text \<open>\<open>Array.prototype.pop\<close>: the last element, \<open>undefined\<close> on an empty array.\<close>

fun pop :: "'a list \<Rightarrow> 'a option" where
  "pop [] = None"
| "pop [x] = Some x"
| "pop (x # y # ys) = pop (y # ys)"

text \<open>\<open>replace(/_/g, " ")\<close>: every underscore becomes a space.\<close>

definition replace_underscores :: "string \<Rightarrow> string" where
  "replace_underscores s = map (\<lambda>c. if c = CHR ''_'' then CHR '' '' else c) s"

text \<open>
  \<open>String.prototype.replace\<close> with a string pattern: only the first occurrence,
  wherever it is, is replaced.
\<close>

fun replace_first :: "string \<Rightarrow> string \<Rightarrow> string \<Rightarrow> string" where
  "replace_first pat rep [] = (if pat = [] then rep else [])"
| "replace_first pat rep (c # cs) =
     (if take (length pat) (c # cs) = pat then rep @ drop (length pat) (c # cs)
      else c # replace_first pat rep cs)"

text \<open>\<open>Array.prototype.join\<close> on an array of strings.\<close>

fun join :: "string \<Rightarrow> string list \<Rightarrow> string" where
  "join sep [] = []"
| "join sep [x] = x"
| "join sep (x # y # ys) = x @ sep @ join sep (y # ys)"

text \<open>A callback that may throw, mapped over an array: the first throw aborts.\<close>

fun map_throwing :: "('a \<Rightarrow> js_error + 'b) \<Rightarrow> 'a list \<Rightarrow> js_error + 'b list" where
  "map_throwing f [] = Inr []"
| "map_throwing f (x # xs) =
     (case f x of
        Inl e \<Rightarrow> Inl e
      | Inr y \<Rightarrow> (case map_throwing f xs of Inl e \<Rightarrow> Inl e | Inr ys \<Rightarrow> Inr (y # ys)))"

section \<open>The context retrieval adapter (\<open>app/lib/utils.ts\<close>)\<close>

subsection \<open>Data of the remote retrieval service\<close>

text \<open>
  The SDK's \<open>KnowledgeBaseRetrievalResult\<close>; every field is optional there. Field
  names carry the name of their record where the source's name is taken in HOL.
\<close>

record RetrievalResultContent =
  content_text :: "string option"

record S3Location =
  uri :: "string option"

record RetrievalResultLocation =
  s3Location :: "S3Location option"

record KnowledgeBaseRetrievalResult =
  content :: "RetrievalResultContent option"
  location :: "RetrievalResultLocation option"
  score :: "js_number option"
  metadata :: "(string \<rightharpoonup> document) option"

record RetrieveCommandOutput =
  retrievalResults :: "KnowledgeBaseRetrievalResult list option"

record RetrieveCommandInput =
  knowledgeBaseId :: string
  retrievalQuery_text :: string
  numberOfResults :: js_number

text \<open>
  The remote client: what \<open>await bedrockClient.send(command)\<close> produces for a
  command. The code guards the response with \<open>?.\<close>, so an absent response is a
  value of the model as well.
\<close>

type_synonym BedrockAgentRuntimeClient =
  "RetrieveCommandInput \<Rightarrow> RetrieveCommandOutput option promise"

subsection \<open>Data returned by the adapter\<close>

record RAGSource =
  source_id :: document
  fileName :: string
  snippet :: string
  source_score :: js_number

record RetrievedContext =
  context_text :: string
  isRagWorking :: bool
  ragSources :: "RAGSource list"

subsection \<open>The callbacks of \<open>retrieveContext\<close>\<close>

text \<open>The filter predicate \<open>res.content && res.content.text\<close> (lines 95 and 112).\<close>

definition has_text :: "KnowledgeBaseRetrievalResult \<Rightarrow> bool" where
  "has_text res =
     (case content res of
        None \<Rightarrow> False
      | Some c \<Rightarrow> (case content_text c of None \<Rightarrow> False | Some t \<Rightarrow> t \<noteq> []))"

text \<open>The optional chain \<open>result?.location?.s3Location?.uri\<close> (line 97).\<close>

definition locator :: "KnowledgeBaseRetrievalResult \<Rightarrow> string option" where
  "locator result =
     (case location result of
        None \<Rightarrow> None
      | Some l \<Rightarrow> (case s3Location l of None \<Rightarrow> None | Some s3 \<Rightarrow> uri s3))"

text \<open>\<open>result?.location?.s3Location?.uri || ""\<close> (line 97).\<close>

definition result_uri :: "KnowledgeBaseRetrievalResult \<Rightarrow> string" where
  "result_uri result = (case locator result of None \<Rightarrow> [] | Some u \<Rightarrow> if u = [] then [] else u)"

text \<open>\<open>uri.split("/").pop() || `Source-${index}.txt`\<close> (line 98).\<close>

definition result_fileName :: "nat \<Rightarrow> string \<Rightarrow> string" where
  "result_fileName index u =
     (case pop (split CHR ''/'' u) of
        None \<Rightarrow> ''Source-'' @ string_of_nat index @ ''.txt''
      | Some seg \<Rightarrow>
          if seg = [] then ''Source-'' @ string_of_nat index @ ''.txt'' else seg)"

text \<open>\<open>result.metadata?.["x-amz-bedrock-kb-chunk-id"] || `chunk-${index}`\<close> (line 102).\<close>

definition result_id :: "nat \<Rightarrow> KnowledgeBaseRetrievalResult \<Rightarrow> document" where
  "result_id index result =
     (case metadata result of
        None \<Rightarrow> DStr (''chunk-'' @ string_of_nat index)
      | Some m \<Rightarrow>
          (case m ''x-amz-bedrock-kb-chunk-id'' of
             None \<Rightarrow> DStr (''chunk-'' @ string_of_nat index)
           | Some d \<Rightarrow>
               if truthy_document d then d else DStr (''chunk-'' @ string_of_nat index)))"

text \<open>\<open>result.content?.text || ""\<close> (line 104).\<close>

definition result_snippet :: "KnowledgeBaseRetrievalResult \<Rightarrow> string" where
  "result_snippet result =
     (case content result of
        None \<Rightarrow> []
      | Some c \<Rightarrow> (case content_text c of None \<Rightarrow> [] | Some t \<Rightarrow> t))"

text \<open>\<open>result.score || 0\<close> (line 105).\<close>

definition result_score :: "KnowledgeBaseRetrievalResult \<Rightarrow> js_number" where
  "result_score result =
     (case score result of
        None \<Rightarrow> Num 0
      | Some x \<Rightarrow> if truthy_number x then x else Num 0)"

text \<open>The \<open>map\<close> callback of lines 96 to 107, applied to a match and its index.\<close>

definition to_RAGSource :: "nat \<Rightarrow> KnowledgeBaseRetrievalResult \<Rightarrow> RAGSource" where
  "to_RAGSource index result =
     \<lparr> source_id = result_id index result,
       fileName =
         replace_first ''.txt'' []
           (replace_underscores (result_fileName index (result_uri result))),
       snippet = result_snippet result,
       source_score = result_score result \<rparr>"

text \<open>
  The \<open>map\<close> callback \<open>res.content.text\<close> of line 113: it reads a property of
  \<open>res.content\<close> with no guard, which throws a \<open>TypeError\<close> when the content is
  absent; an absent text is \<open>undefined\<close>.
\<close>

definition read_content_text ::
  "KnowledgeBaseRetrievalResult \<Rightarrow> js_error + string option" where
  "read_content_text res =
     (case content res of
        None \<Rightarrow> Inl (Error ''TypeError'' ''Cannot read properties of undefined'')
      | Some c \<Rightarrow> Inr (content_text c))"

text \<open>\<open>join\<close> renders an \<open>undefined\<close> element as the empty string.\<close>

definition join_elements :: "string \<Rightarrow> string option list \<Rightarrow> string" where
  "join_elements sep xs = join sep (map (\<lambda>x. case x of None \<Rightarrow> [] | Some t \<Rightarrow> t) xs)"

subsection \<open>\<open>retrieveContext\<close>\<close>

text \<open>
  The value returned on the early exit and in the \<open>catch\<close> block, and the one
  returned when the service answers with no match.
\<close>

definition not_working :: RetrievedContext where
  "not_working = \<lparr> context_text = [], isRagWorking = False, ragSources = [] \<rparr>"

definition no_results :: RetrievedContext where
  "no_results = \<lparr> context_text = [], isRagWorking = True, ragSources = [] \<rparr>"

text \<open>
  The body of the \<open>try\<close> block. The result is paired with the commands handed to
  \<open>bedrockClient.send\<close>, in order. Console output is not part of the model. The
  parameter \<open>n\<close> is optional with default 3; \<open>knowledgeBaseId\<close> may be absent at run
  time, which \<open>!knowledgeBaseId\<close> treats like the empty string.

  The command input of lines 71 to 77:
\<close>

definition command_input :: "string \<Rightarrow> string \<Rightarrow> js_number option \<Rightarrow> RetrieveCommandInput" where
  "command_input query kb n =
     \<lparr> knowledgeBaseId = kb,
       retrievalQuery_text = query,
       numberOfResults = (case n of None \<Rightarrow> Num 3 | Some k \<Rightarrow> k) \<rparr>"

text \<open>\<open>response?.retrievalResults || []\<close> (line 83).\<close>

definition raw_results :: "RetrieveCommandOutput option \<Rightarrow> KnowledgeBaseRetrievalResult list" where
  "raw_results response =
     (case response of
        None \<Rightarrow> []
      | Some r \<Rightarrow> (case retrievalResults r of None \<Rightarrow> [] | Some rs \<Rightarrow> rs))"

definition retrieveContext_try ::
  "string \<Rightarrow> string option \<Rightarrow> js_number option \<Rightarrow> BedrockAgentRuntimeClient
     \<Rightarrow> RetrievedContext promise \<times> RetrieveCommandInput list" where
  "retrieveContext_try query kbId n bedrockClient =
     (case kbId of
        None \<Rightarrow> (Fulfilled not_working, [])
      | Some kb \<Rightarrow>
          if kb = [] then (Fulfilled not_working, [])
          else
            let input = command_input query kb n in
              (case bedrockClient input of
                 Pending \<Rightarrow> (Pending, [input])
               | Rejected e \<Rightarrow> (Rejected e, [input])
               | Fulfilled response \<Rightarrow>
                   let rawResults = raw_results response in
                     if length rawResults = 0 then (Fulfilled no_results, [input])
                     else
                       let sources = map (\<lambda>(index, result). to_RAGSource index result)
                                       (enumerate 0 (filter has_text rawResults))
                       in
                         (case map_throwing read_content_text (filter has_text rawResults) of
                            Inl e \<Rightarrow> (Rejected e, [input])
                          | Inr texts \<Rightarrow>
                              (Fulfilled \<lparr> context_text = join_elements [CHR 0x0A, CHR 0x0A] texts,
                                           isRagWorking = True,
                                           ragSources = sources \<rparr>,
                               [input]))))"

text \<open>
  The whole function: whatever the \<open>try\<close> block throws is caught, and the
  \<open>catch\<close> block returns the fixed failure value.
\<close>

definition retrieveContext ::
  "string \<Rightarrow> string option \<Rightarrow> js_number option \<Rightarrow> BedrockAgentRuntimeClient
     \<Rightarrow> RetrievedContext promise \<times> RetrieveCommandInput list" where
  "retrieveContext query kbId n bedrockClient =
     (case retrieveContext_try query kbId n bedrockClient of
        (Rejected e, sent) \<Rightarrow> (Fulfilled not_working, sent)
      | (p, sent) \<Rightarrow> (p, sent))"

section \<open>The knowledge-base listing route (\<open>app/api/knowledgebases/route.ts\<close>)\<close>

text \<open>
  The SDK's \<open>KnowledgeBaseSummary\<close>. The type \<open>'d\<close> stands for JavaScript's
  \<open>Date\<close>; its method \<open>toISOString\<close>, which throws a \<open>RangeError\<close> on an invalid
  date, is a parameter of the handler.
\<close>

record 'd KnowledgeBaseSummary =
  summary_knowledgeBaseId :: "string option"
  summary_name :: "string option"
  summary_description :: "string option"
  summary_status :: "string option"
  summary_updatedAt :: "'d option"

record 'd ListKnowledgeBasesOutput =
  knowledgeBaseSummaries :: "'d KnowledgeBaseSummary list option"

text \<open>The plain record the handler maps each summary to.\<close>

record KnowledgeBaseEntry =
  entry_id :: "string option"
  entry_name :: "string option"
  entry_description :: "string option"
  entry_status :: "string option"
  entry_updatedAt :: "string option"

datatype json_body = ErrorBody string | KnowledgeBasesBody "KnowledgeBaseEntry list"

record NextResponse =
  response_status :: nat
  response_body :: json_body

text \<open>
  The request: the query parameters of its URL, in order.
  \<open>searchParams.get\<close> returns the first value of a name, \<open>null\<close> when there is none.
\<close>

record NextRequest =
  searchParams :: "(string \<times> string) list"

definition searchParams_get :: "(string \<times> string) list \<Rightarrow> string \<Rightarrow> string option" where
  "searchParams_get params name = map_of params name"

text \<open>The \<open>map\<close> callback of lines 19 to 25.\<close>

definition to_entry ::
  "('d \<Rightarrow> js_error + string) \<Rightarrow> 'd KnowledgeBaseSummary \<Rightarrow> js_error + KnowledgeBaseEntry" where
  "to_entry toISOString kb =
     (case (case summary_updatedAt kb of
              None \<Rightarrow> Inr None
            | Some d \<Rightarrow> (case toISOString d of Inl e \<Rightarrow> Inl e | Inr s \<Rightarrow> Inr (Some s))) of
        Inl e \<Rightarrow> Inl e
      | Inr updated \<Rightarrow>
          Inr \<lparr> entry_id = summary_knowledgeBaseId kb,
                entry_name = summary_name kb,
                entry_description = summary_description kb,
                entry_status = summary_status kb,
                entry_updatedAt = updated \<rparr>)"

text \<open>
  The handler. The registry is what \<open>await client.send(command)\<close> produces for a
  client built for the region; the result is paired with the regions for which a
  request was issued. Reading \<open>response.knowledgeBaseSummaries\<close> has no guard on
  \<open>response\<close>. Every throw inside the \<open>try\<close> block ends in the status 500 answer.
\<close>

definition GET ::
  "('d \<Rightarrow> js_error + string) \<Rightarrow> (string \<Rightarrow> 'd ListKnowledgeBasesOutput option promise)
     \<Rightarrow> NextRequest \<Rightarrow> NextResponse promise \<times> string list" where
  "GET toISOString registry request =
     (case searchParams_get (searchParams request) ''region'' of
        None \<Rightarrow>
          (Fulfilled \<lparr> response_status = 400, response_body = ErrorBody ''Region is required'' \<rparr>, [])
      | Some region \<Rightarrow>
          if region = [] then
            (Fulfilled \<lparr> response_status = 400, response_body = ErrorBody ''Region is required'' \<rparr>, [])
          else
            (case registry region of
               Pending \<Rightarrow> (Pending, [region])
             | Rejected e \<Rightarrow>
                 (Fulfilled \<lparr> response_status = 500,
                              response_body = ErrorBody ''Failed to fetch knowledge bases'' \<rparr>,
                  [region])
             | Fulfilled None \<Rightarrow>
                 (Fulfilled \<lparr> response_status = 500,
                              response_body = ErrorBody ''Failed to fetch knowledge bases'' \<rparr>,
                  [region])
             | Fulfilled (Some response) \<Rightarrow>
                 (case knowledgeBaseSummaries response of
                    None \<Rightarrow>
                      (Fulfilled \<lparr> response_status = 200, response_body = KnowledgeBasesBody [] \<rparr>,
                       [region])
                  | Some kbs \<Rightarrow>
                      (case map_throwing (to_entry toISOString) kbs of
                         Inl e \<Rightarrow>
                           (Fulfilled \<lparr> response_status = 500,
                                        response_body = ErrorBody ''Failed to fetch knowledge bases'' \<rparr>,
                            [region])
                       | Inr knowledgeBases \<Rightarrow>
                           (Fulfilled \<lparr> response_status = 200,
                                        response_body = KnowledgeBasesBody knowledgeBases \<rparr>,
                            [region])))))"

section \<open>Example data\<close>

text \<open>The two matches of the return-policy scenario, and clients answering every command alike.\<close>

definition returns_match :: KnowledgeBaseRetrievalResult where
  "returns_match =
     \<lparr> content = Some \<lparr> content_text = Some ''Returns accepted within 30 days.'' \<rparr>,
       location = Some \<lparr> s3Location = Some \<lparr> uri = Some ''s3://bucket/policy_returns.txt'' \<rparr> \<rparr>,
       score = Some (Num (9 / 10)),
       metadata = None \<rparr>"

definition refunds_match :: KnowledgeBaseRetrievalResult where
  "refunds_match =
     \<lparr> content = Some \<lparr> content_text = Some ''Refunds issued to original payment method.'' \<rparr>,
       location = Some \<lparr> s3Location = Some \<lparr> uri = Some ''s3://bucket/policy_refunds.txt'' \<rparr> \<rparr>,
       score = Some (Num (8 / 10)),
       metadata = None \<rparr>"

text \<open>A match with no text, and a match with text whose locator is a bare folder.\<close>

definition textless_match :: KnowledgeBaseRetrievalResult where
  "textless_match =
     \<lparr> content = Some \<lparr> content_text = None \<rparr>,
       location = Some \<lparr> s3Location = Some \<lparr> uri = Some ''s3://bucket/image.png'' \<rparr> \<rparr>,
       score = Some (Num (7 / 10)),
       metadata = None \<rparr>"

definition folder_match :: KnowledgeBaseRetrievalResult where
  "folder_match =
     \<lparr> content = Some \<lparr> content_text = Some ''Shipping takes five days.'' \<rparr>,
       location = Some \<lparr> s3Location = Some \<lparr> uri = Some ''s3://bucket/docs/'' \<rparr> \<rparr>,
       score = Some (Num (1 / 2)),
       metadata = None \<rparr>"

definition answering_client :: "KnowledgeBaseRetrievalResult list \<Rightarrow> BedrockAgentRuntimeClient" where
  "answering_client rs input = Fulfilled (Some \<lparr> retrievalResults = Some rs \<rparr>)"

definition fieldless_client :: BedrockAgentRuntimeClient where
  "fieldless_client input = Fulfilled (Some \<lparr> retrievalResults = None \<rparr>)"

definition failing_client :: BedrockAgentRuntimeClient where
  "failing_client input = Rejected (Error ''TimeoutError'' ''socket hang up'')"

text \<open>A registry that answers every region with an empty listing, and a date type with one value.\<close>

definition empty_registry :: "string \<Rightarrow> unit ListKnowledgeBasesOutput option promise" where
  "empty_registry region = Fulfilled (Some \<lparr> knowledgeBaseSummaries = Some [] \<rparr>)"

definition unit_toISOString :: "unit \<Rightarrow> js_error + string" where
  "unit_toISOString d = Inr ''1970-01-01T00:00:00.000Z''"


section \<open>Verified properties\<close>

subsection \<open>The text filter and the context string\<close>

lemma has_text_iff:
  "has_text r \<longleftrightarrow> (\<exists>c t. content r = Some c \<and> content_text c = Some t \<and> t \<noteq> [])"
  by (auto simp: has_text_def split: option.splits)

lemma read_content_text_has_text:
  "has_text r \<Longrightarrow> read_content_text r = Inr (Some (result_snippet r))"
  by (auto simp: has_text_def read_content_text_def result_snippet_def split: option.splits)

lemma map_throwing_all_Inr:
  "(\<And>x. x \<in> set xs \<Longrightarrow> f x = Inr (g x)) \<Longrightarrow> map_throwing f xs = Inr (map g xs)"
  by (induction xs) auto

lemma map_throwing_read_content_text:
  "map_throwing read_content_text (filter has_text rs) =
     Inr (map (\<lambda>r. Some (result_snippet r)) (filter has_text rs))"
  by (rule map_throwing_all_Inr) (simp add: read_content_text_has_text)

lemma join_elements_Some:
  "join_elements sep (map (\<lambda>r. Some (f r)) xs) = join sep (map f xs)"
  by (simp add: join_elements_def comp_def)

lemma retrieveContext_resolved:
  assumes "kb \<noteq> []"
    and "client (command_input query kb n) = Fulfilled response"
  shows "retrieveContext query (Some kb) n client =
     (Fulfilled \<lparr> context_text =
                    join [CHR 0x0A, CHR 0x0A] (map result_snippet (filter has_text (raw_results response))),
                  isRagWorking = True,
                  ragSources = map (\<lambda>(index, result). to_RAGSource index result)
                                 (enumerate 0 (filter has_text (raw_results response))) \<rparr>,
      [command_input query kb n])"
  using assms
  by (simp add: retrieveContext_def retrieveContext_try_def Let_def no_results_def
      map_throwing_read_content_text join_elements_Some)

lemma retrieveContext_rejected:
  assumes "kb \<noteq> []"
    and "client (command_input query kb n) = Rejected e"
  shows "retrieveContext query (Some kb) n client = (Fulfilled not_working, [command_input query kb n])"
  using assms by (simp add: retrieveContext_def retrieveContext_try_def Let_def)

lemma retrieveContext_pending:
  assumes "kb \<noteq> []"
    and "client (command_input query kb n) = Pending"
  shows "retrieveContext query (Some kb) n client = (Pending, [command_input query kb n])"
  using assms by (simp add: retrieveContext_def retrieveContext_try_def Let_def)

lemma retrieveContext_early_exit:
  "kbId = None \<or> kbId = Some [] \<Longrightarrow> retrieveContext query kbId n client = (Fulfilled not_working, [])"
  by (auto simp: retrieveContext_def retrieveContext_try_def)

text \<open>
  Claim C4. When the knowledge-base identifier is absent or the empty string,
  \<open>retrieveContext\<close> returns an empty context string, an empty source list and
  \<open>isRagWorking = false\<close>, and no command is handed to the remote client.
\<close>

theorem retrieveContext_without_knowledge_base:
  assumes "kbId = None \<or> kbId = Some []"
  shows "retrieveContext query kbId n client =
           (Fulfilled \<lparr> context_text = [], isRagWorking = False, ragSources = [] \<rparr>, [])"
  using retrieveContext_early_exit [OF assms] by (simp add: not_working_def)

theorem retrieveContext_without_knowledge_base_witness:
  "retrieveContext ''What is your return policy?'' (Some []) None
       (answering_client [returns_match, refunds_match]) =
     (Fulfilled \<lparr> context_text = [], isRagWorking = False, ragSources = [] \<rparr>, [])
   \<and> retrieveContext ''What is your return policy?'' None (Some (Num 5)) failing_client =
     (Fulfilled \<lparr> context_text = [], isRagWorking = False, ragSources = [] \<rparr>, [])"
  using retrieveContext_without_knowledge_base [of "Some []"]
    retrieveContext_without_knowledge_base [of None]
  by simp

text \<open>
  Claim C5. When the identifier is non-empty and the remote call throws, whatever the
  error, \<open>retrieveContext\<close> resolves (the error is not raised again) with exactly the
  empty context string, the empty source list and \<open>isRagWorking = false\<close>; the value
  does not depend on the error, and one command was sent.
\<close>

theorem retrieveContext_remote_error:
  assumes "kb \<noteq> []"
    and "client (command_input query kb n) = Rejected e"
  shows "retrieveContext query (Some kb) n client =
           (Fulfilled \<lparr> context_text = [], isRagWorking = False, ragSources = [] \<rparr>,
            [command_input query kb n])"
  using assms retrieveContext_rejected [where kb = kb and client = client and query = query and n = n and e = e]
  by (simp add: not_working_def)

theorem retrieveContext_remote_error_witness:
  "''KB123'' \<noteq> []
   \<and> failing_client (command_input ''What is your return policy?'' ''KB123'' None) =
       Rejected (Error ''TimeoutError'' ''socket hang up'')
   \<and> retrieveContext ''What is your return policy?'' (Some ''KB123'') None failing_client =
       (Fulfilled \<lparr> context_text = [], isRagWorking = False, ragSources = [] \<rparr>,
        [\<lparr> knowledgeBaseId = ''KB123'', retrievalQuery_text = ''What is your return policy?'',
           numberOfResults = Num 3 \<rparr>])"
proof -
  have kb: "''KB123'' \<noteq> []" by simp
  have rej: "failing_client (command_input ''What is your return policy?'' ''KB123'' None) =
       Rejected (Error ''TimeoutError'' ''socket hang up'')"
    by (simp add: failing_client_def)
  show ?thesis
    using kb rej
      retrieveContext_remote_error [where kb = "''KB123''" and client = failing_client
        and query = "''What is your return policy?''" and n = None
        and e = "Error ''TimeoutError'' ''socket hang up''"]
    by (simp add: command_input_def)
qed

text \<open>
  Claim C2. When the identifier is non-empty and the remote call succeeds with an empty
  list of matches, the result is \<open>isRagWorking = true\<close> with an empty context string
  and an empty source list.
\<close>

theorem retrieveContext_zero_matches:
  assumes "kb \<noteq> []"
    and "client (command_input query kb n) = Fulfilled (Some \<lparr> retrievalResults = Some [] \<rparr>)"
  shows "retrieveContext query (Some kb) n client =
           (Fulfilled \<lparr> context_text = [], isRagWorking = True, ragSources = [] \<rparr>,
            [command_input query kb n])"
  using assms retrieveContext_resolved [where kb = kb and client = client and query = query and n = n
      and response = "Some \<lparr> retrievalResults = Some [] \<rparr>"]
  by (simp add: raw_results_def)

theorem retrieveContext_zero_matches_witness:
  "''KB123'' \<noteq> []
   \<and> answering_client [] (command_input ''Do you ship abroad?'' ''KB123'' (Some (Num 5))) =
       Fulfilled (Some \<lparr> retrievalResults = Some [] \<rparr>)
   \<and> retrieveContext ''Do you ship abroad?'' (Some ''KB123'') (Some (Num 5)) (answering_client []) =
       (Fulfilled \<lparr> context_text = [], isRagWorking = True, ragSources = [] \<rparr>,
        [\<lparr> knowledgeBaseId = ''KB123'', retrievalQuery_text = ''Do you ship abroad?'',
           numberOfResults = Num 5 \<rparr>])"
proof -
  have kb: "''KB123'' \<noteq> []" by simp
  have res: "answering_client [] (command_input ''Do you ship abroad?'' ''KB123'' (Some (Num 5))) =
       Fulfilled (Some \<lparr> retrievalResults = Some [] \<rparr>)"
    by (simp add: answering_client_def)
  show ?thesis
    using kb res
      retrieveContext_zero_matches [where kb = "''KB123''" and client = "answering_client []"
        and query = "''Do you ship abroad?''" and n = "Some (Num 5)"]
    by (simp add: command_input_def)
qed

text \<open>
  Claim C10. When the identifier is non-empty and the remote call succeeds with a
  response whose result list is absent, the function answers as for zero matches:
  \<open>isRagWorking = true\<close>, empty context string, empty source list.
\<close>

theorem retrieveContext_absent_result_list:
  assumes "kb \<noteq> []"
    and "client (command_input query kb n) = Fulfilled (Some response)"
    and "retrievalResults response = None"
  shows "retrieveContext query (Some kb) n client =
           (Fulfilled \<lparr> context_text = [], isRagWorking = True, ragSources = [] \<rparr>,
            [command_input query kb n])"
  using assms retrieveContext_resolved [where kb = kb and client = client and query = query and n = n
      and response = "Some response"]
  by (simp add: raw_results_def)

theorem retrieveContext_absent_result_list_witness:
  "''KB123'' \<noteq> []
   \<and> fieldless_client (command_input ''Do you ship abroad?'' ''KB123'' None) =
       Fulfilled (Some \<lparr> retrievalResults = None \<rparr>)
   \<and> retrievalResults \<lparr> retrievalResults = None \<rparr> = None
   \<and> retrieveContext ''Do you ship abroad?'' (Some ''KB123'') None fieldless_client =
       (Fulfilled \<lparr> context_text = [], isRagWorking = True, ragSources = [] \<rparr>,
        [\<lparr> knowledgeBaseId = ''KB123'', retrievalQuery_text = ''Do you ship abroad?'',
           numberOfResults = Num 3 \<rparr>])"
proof -
  have kb: "''KB123'' \<noteq> []" by simp
  have res: "fieldless_client (command_input ''Do you ship abroad?'' ''KB123'' None) =
       Fulfilled (Some \<lparr> retrievalResults = None \<rparr>)"
    by (simp add: fieldless_client_def)
  have fld: "retrievalResults \<lparr> retrievalResults = None \<rparr> = None" by simp
  show ?thesis
    using kb res fld
      retrieveContext_absent_result_list [where kb = "''KB123''" and client = fieldless_client
        and query = "''Do you ship abroad?''" and n = None
        and response = "\<lparr> retrievalResults = None \<rparr>"]
    by (simp add: command_input_def)
qed

text \<open>
  Claim C9. When the \<open>region\<close> parameter of a listing request is missing, or its
  first value is the empty string, the handler answers with status 400 and an error
  payload, and no request is issued to the registry.
\<close>

theorem GET_missing_region:
  assumes "''region'' \<notin> fst ` set (searchParams request)
           \<or> map_of (searchParams request) ''region'' = Some []"
  shows "GET toISOString registry request =
           (Fulfilled \<lparr> response_status = 400, response_body = ErrorBody ''Region is required'' \<rparr>, [])"
proof -
  from assms have "searchParams_get (searchParams request) ''region'' = None
      \<or> searchParams_get (searchParams request) ''region'' = Some []"
    by (auto simp: searchParams_get_def map_of_eq_None_iff)
  then show ?thesis by (auto simp: GET_def)
qed

theorem GET_missing_region_witness:
  "GET unit_toISOString empty_registry \<lparr> searchParams = [(''region'', []), (''region'', ''us-east-1'')] \<rparr> =
     (Fulfilled \<lparr> response_status = 400, response_body = ErrorBody ''Region is required'' \<rparr>, [])
   \<and> GET unit_toISOString empty_registry \<lparr> searchParams = [(''lang'', ''en'')] \<rparr> =
     (Fulfilled \<lparr> response_status = 400, response_body = ErrorBody ''Region is required'' \<rparr>, [])"
  using GET_missing_region [of "\<lparr> searchParams = [(''region'', []), (''region'', ''us-east-1'')] \<rparr>"
      unit_toISOString empty_registry]
    GET_missing_region [of "\<lparr> searchParams = [(''lang'', ''en'')] \<rparr>" unit_toISOString empty_registry]
  by simp

subsection \<open>Index rendering, splitting and replacing\<close>

lemma digit_char_in: "d < 10 \<Longrightarrow> digit_char d \<in> set ''0123456789''"
  unfolding digit_char_def by (rule nth_mem) simp

lemma string_of_nat_digits: "set (string_of_nat n) \<subseteq> set ''0123456789''"
proof (induction n rule: string_of_nat.induct)
  case (1 n)
  show ?case
  proof (cases "n < 10")
    case True
    then have "string_of_nat n = [digit_char n]" by (subst string_of_nat.simps) simp
    then show ?thesis
      using digit_char_in [OF True] by simp
  next
    case False
    have "n mod 10 < 10" by simp
    then have d: "digit_char (n mod 10) \<in> set ''0123456789''" by (rule digit_char_in)
    from False have e: "string_of_nat n = string_of_nat (n div 10) @ [digit_char (n mod 10)]"
      by (subst string_of_nat.simps) simp
    from 1 [OF False] d show ?thesis
      unfolding e by simp
  qed
qed


lemma string_of_nat_no_dot: "CHR ''.'' \<notin> set (string_of_nat n)"
proof
  assume "CHR ''.'' \<in> set (string_of_nat n)"
  with string_of_nat_digits [of n] have "CHR ''.'' \<in> set ''0123456789''" by (rule subsetD)
  then show False by simp
qed

lemma string_of_nat_no_underscore: "CHR ''_'' \<notin> set (string_of_nat n)"
proof
  assume "CHR ''_'' \<in> set (string_of_nat n)"
  with string_of_nat_digits [of n] have "CHR ''_'' \<in> set ''0123456789''" by (rule subsetD)
  then show False by simp
qed

lemma replace_underscores_id: "CHR ''_'' \<notin> set s \<Longrightarrow> replace_underscores s = s"
  by (induction s) (auto simp: replace_underscores_def)

lemma replace_first_txt_suffix:
  "CHR ''.'' \<notin> set s \<Longrightarrow> replace_first ''.txt'' [] (s @ ''.txt'') = s"
  by (induction s) auto


lemma placeholder_display_name:
  "replace_first ''.txt'' [] (replace_underscores (''Source-'' @ string_of_nat i @ ''.txt'')) =
     ''Source-'' @ string_of_nat i"
proof -
  have "CHR ''_'' \<notin> set (''Source-'' @ string_of_nat i @ ''.txt'')"
    using string_of_nat_no_underscore [of i] by simp
  then have u: "replace_underscores (''Source-'' @ string_of_nat i @ ''.txt'') =
      (''Source-'' @ string_of_nat i) @ ''.txt''"
    by (simp add: replace_underscores_id)
  have "CHR ''.'' \<notin> set (''Source-'' @ string_of_nat i)"
    using string_of_nat_no_dot [of i] by simp
  then have "replace_first ''.txt'' [] ((''Source-'' @ string_of_nat i) @ ''.txt'') =
      ''Source-'' @ string_of_nat i"
    by (rule replace_first_txt_suffix)
  with u show ?thesis by (simp only:)
qed

lemma split_not_Nil: "split sep s \<noteq> []"
  by (induction s) (auto split: list.splits)

lemma split_snoc_sep: "split sep (s @ [sep]) = split sep s @ [[]]"
proof (induction s)
  case Nil
  show ?case by simp
next
  case (Cons c cs)
  then show ?case
    using split_not_Nil [of sep cs] by (cases "split sep cs") auto
qed

lemma pop_last: "xs \<noteq> [] \<Longrightarrow> pop xs = Some (last xs)"
  by (induction xs rule: pop.induct) auto

lemma pop_split_trailing_sep:
  assumes "u = [] \<or> last u = sep"
  shows "pop (split sep u) = Some []"
proof (cases "u = []")
  case True
  then show ?thesis by simp
next
  case False
  with assms have "u = butlast u @ [sep]"
    by (metis append_butlast_last_id)
  then have "split sep u = split sep (butlast u) @ [[]]"
    by (metis split_snoc_sep)
  then show ?thesis
    by (simp add: pop_last)
qed

lemma result_fileName_placeholder:
  "u = [] \<or> last u = CHR ''/'' \<Longrightarrow>
     result_fileName index u = ''Source-'' @ string_of_nat index @ ''.txt''"
  by (simp add: result_fileName_def pop_split_trailing_sep)

text \<open>
  Claim C6. The return-policy scenario: for the query "What is your return policy?" and
  the knowledge base "KB123", when the service returns the two matches in that order,
  the context is the two texts with a blank line between them, the two sources are
  named "policy returns" and "policy refunds" with scores 0.9 and 0.8, and
  \<open>isRagWorking = true\<close>.
\<close>

theorem retrieveContext_return_policy_scenario:
  "retrieveContext ''What is your return policy?'' (Some ''KB123'') n
       (answering_client [returns_match, refunds_match]) =
     (Fulfilled
        \<lparr> context_text =
            ''Returns accepted within 30 days.'' @ [CHR 0x0A, CHR 0x0A]
              @ ''Refunds issued to original payment method.'',
          isRagWorking = True,
          ragSources =
            [\<lparr> source_id = DStr ''chunk-0'', fileName = ''policy returns'',
               snippet = ''Returns accepted within 30 days.'', source_score = Num (9 / 10) \<rparr>,
             \<lparr> source_id = DStr ''chunk-1'', fileName = ''policy refunds'',
               snippet = ''Refunds issued to original payment method.'',
               source_score = Num (8 / 10) \<rparr>] \<rparr>,
      [command_input ''What is your return policy?'' ''KB123'' n])"
proof -
  have z: "string_of_nat 0 = ''0''" and o: "string_of_nat (Suc 0) = ''1''"
    by (simp_all add: string_of_nat.simps digit_char_def)
  have t: "has_text returns_match" "has_text refunds_match"
    by (simp_all add: has_text_def returns_match_def refunds_match_def)
  have s0: "to_RAGSource 0 returns_match =
      \<lparr> source_id = DStr ''chunk-0'', fileName = ''policy returns'',
        snippet = ''Returns accepted within 30 days.'', source_score = Num (9 / 10) \<rparr>"
    by (simp add: to_RAGSource_def result_id_def result_fileName_def result_uri_def locator_def
        result_snippet_def result_score_def replace_underscores_def returns_match_def z)
  have s1: "to_RAGSource (Suc 0) refunds_match =
      \<lparr> source_id = DStr ''chunk-1'', fileName = ''policy refunds'',
        snippet = ''Refunds issued to original payment method.'', source_score = Num (8 / 10) \<rparr>"
    by (simp add: to_RAGSource_def result_id_def result_fileName_def result_uri_def locator_def
        result_snippet_def result_score_def replace_underscores_def refunds_match_def o)
  have sn: "result_snippet returns_match = ''Returns accepted within 30 days.''"
    "result_snippet refunds_match = ''Refunds issued to original payment method.''"
    by (simp_all add: result_snippet_def returns_match_def refunds_match_def)
  show ?thesis
    by (simp add: retrieveContext_resolved [where response = "Some \<lparr> retrievalResults = Some [returns_match, refunds_match] \<rparr>"
          and client = "answering_client [returns_match, refunds_match]"]
        answering_client_def raw_results_def t s0 s1 sn)
qed

subsection \<open>Order and content of the sources\<close>

lemma snippet_to_RAGSource: "snippet (to_RAGSource i r) = result_snippet r"
  by (simp add: to_RAGSource_def)

lemma map_snippet_sources:
  "map snippet (map (\<lambda>(index, result). to_RAGSource index result) (enumerate k xs)) =
     map result_snippet xs"
  by (induction xs arbitrary: k) (simp_all add: snippet_to_RAGSource)

lemma nth_sources:
  "i < length xs \<Longrightarrow>
     map (\<lambda>(index, result). to_RAGSource index result) (enumerate 0 xs) ! i =
       to_RAGSource i (xs ! i)"
  by (simp add: nth_enumerate_eq)

lemma all_texts_has_text:
  "list_all2 (\<lambda>r t. \<exists>c. content r = Some c \<and> content_text c = Some t \<and> t \<noteq> []) rs texts
     \<Longrightarrow> filter has_text rs = rs \<and> map result_snippet rs = texts"
proof (induction rs texts rule: list_all2_induct)
  case Nil
  show ?case by simp
next
  case (Cons r rs t ts)
  from Cons.hyps(1) have "has_text r" and "result_snippet r = t"
    by (auto simp: has_text_def result_snippet_def)
  with Cons.IH show ?case by simp
qed

text \<open>
  Claim C3. When the remote call succeeds with \<open>N \<ge> 1\<close> matches that all contain
  text, the context string is the \<open>N\<close> texts, in the order of the response, joined
  with a blank line, and the source list has exactly \<open>N\<close> entries in that order: the
  entry at each position is built from the match at that position and carries its text.
\<close>

theorem retrieveContext_joins_texts:
  assumes "kb \<noteq> []"
    and "client (command_input query kb n) = Fulfilled (Some \<lparr> retrievalResults = Some rs \<rparr>)"
    and "rs \<noteq> []"
    and "list_all2 (\<lambda>r t. \<exists>c. content r = Some c \<and> content_text c = Some t \<and> t \<noteq> []) rs texts"
  shows "\<exists>sources.
           retrieveContext query (Some kb) n client =
             (Fulfilled \<lparr> context_text = join [CHR 0x0A, CHR 0x0A] texts,
                          isRagWorking = True,
                          ragSources = sources \<rparr>,
              [command_input query kb n])
           \<and> length sources = length rs
           \<and> map snippet sources = texts
           \<and> sources = map (\<lambda>(index, result). to_RAGSource index result) (enumerate 0 rs)"
proof -
  from assms(4) have f: "filter has_text rs = rs" and t: "map result_snippet rs = texts"
    using all_texts_has_text by blast+
  have "retrieveContext query (Some kb) n client =
      (Fulfilled \<lparr> context_text = join [CHR 0x0A, CHR 0x0A] texts,
                   isRagWorking = True,
                   ragSources = map (\<lambda>(index, result). to_RAGSource index result) (enumerate 0 rs) \<rparr>,
       [command_input query kb n])"
    using assms(1,2)
      retrieveContext_resolved [where kb = kb and client = client and query = query and n = n
        and response = "Some \<lparr> retrievalResults = Some rs \<rparr>"]
    by (simp add: raw_results_def f t)
  moreover have "map snippet (map (\<lambda>(index, result). to_RAGSource index result) (enumerate 0 rs)) = texts"
    by (simp only: map_snippet_sources t)
  ultimately show ?thesis by simp
qed

theorem retrieveContext_joins_texts_witness:
  "\<exists>sources.
     retrieveContext ''What is your return policy?'' (Some ''KB123'') None
         (answering_client [refunds_match, returns_match]) =
       (Fulfilled \<lparr> context_text =
                      join [CHR 0x0A, CHR 0x0A]
                        [''Refunds issued to original payment method.'',
                         ''Returns accepted within 30 days.''],
                    isRagWorking = True,
                    ragSources = sources \<rparr>,
        [command_input ''What is your return policy?'' ''KB123'' None])
     \<and> length sources = length [refunds_match, returns_match]
     \<and> map snippet sources =
         [''Refunds issued to original payment method.'', ''Returns accepted within 30 days.'']
     \<and> sources = map (\<lambda>(index, result). to_RAGSource index result)
                     (enumerate 0 [refunds_match, returns_match])"
proof (rule retrieveContext_joins_texts)
  show "''KB123'' \<noteq> []" by simp
  show "answering_client [refunds_match, returns_match]
          (command_input ''What is your return policy?'' ''KB123'' None) =
        Fulfilled (Some \<lparr> retrievalResults = Some [refunds_match, returns_match] \<rparr>)"
    by (simp add: answering_client_def)
  show "[refunds_match, returns_match] \<noteq> []" by simp
  show "list_all2 (\<lambda>r t. \<exists>c. content r = Some c \<and> content_text c = Some t \<and> t \<noteq> [])
          [refunds_match, returns_match]
          [''Refunds issued to original payment method.'', ''Returns accepted within 30 days.'']"
    by (simp add: refunds_match_def returns_match_def)
qed

text \<open>
  Claim C7. A match without text contributes to neither output: the answer to a
  successful response is the answer to the same response with the textless matches
  removed, and both the context string and the snippets of the source list are made
  of the texts of the matches that have text, in order.
\<close>

theorem retrieveContext_excludes_textless:
  assumes "kb \<noteq> []"
    and "client (command_input query kb n) = Fulfilled (Some \<lparr> retrievalResults = Some rs \<rparr>)"
    and "client' (command_input query kb n) =
           Fulfilled (Some \<lparr> retrievalResults = Some (filter has_text rs) \<rparr>)"
  shows "retrieveContext query (Some kb) n client = retrieveContext query (Some kb) n client'
         \<and> (\<exists>r. fst (retrieveContext query (Some kb) n client) = Fulfilled r
                \<and> isRagWorking r
                \<and> context_text r =
                    join [CHR 0x0A, CHR 0x0A] (map result_snippet (filter has_text rs))
                \<and> length (ragSources r) = length (filter has_text rs)
                \<and> map snippet (ragSources r) = map result_snippet (filter has_text rs))"
proof -
  have a: "retrieveContext query (Some kb) n client =
      (Fulfilled \<lparr> context_text =
                     join [CHR 0x0A, CHR 0x0A] (map result_snippet (filter has_text rs)),
                   isRagWorking = True,
                   ragSources = map (\<lambda>(index, result). to_RAGSource index result)
                                  (enumerate 0 (filter has_text rs)) \<rparr>,
       [command_input query kb n])"
    using assms(1,2)
      retrieveContext_resolved [where kb = kb and client = client and query = query and n = n
        and response = "Some \<lparr> retrievalResults = Some rs \<rparr>"]
    by (simp add: raw_results_def)
  have b: "retrieveContext query (Some kb) n client' =
      (Fulfilled \<lparr> context_text =
                     join [CHR 0x0A, CHR 0x0A] (map result_snippet (filter has_text rs)),
                   isRagWorking = True,
                   ragSources = map (\<lambda>(index, result). to_RAGSource index result)
                                  (enumerate 0 (filter has_text rs)) \<rparr>,
       [command_input query kb n])"
    using assms(1,3)
      retrieveContext_resolved [where kb = kb and client = client' and query = query and n = n
        and response = "Some \<lparr> retrievalResults = Some (filter has_text rs) \<rparr>"]
    by (simp add: raw_results_def)
  show ?thesis
    by (simp add: a b map_snippet_sources del: map_map)
qed

theorem retrieveContext_excludes_textless_witness:
  "filter has_text [textless_match, returns_match, textless_match] = [returns_match]
   \<and> retrieveContext ''What is your return policy?'' (Some ''KB123'') None
       (answering_client [textless_match, returns_match, textless_match]) =
     retrieveContext ''What is your return policy?'' (Some ''KB123'') None
       (answering_client [returns_match])
   \<and> (\<exists>r. fst (retrieveContext ''What is your return policy?'' (Some ''KB123'') None
                  (answering_client [textless_match, returns_match, textless_match])) = Fulfilled r
          \<and> isRagWorking r
          \<and> context_text r = join [CHR 0x0A, CHR 0x0A] (map result_snippet [returns_match])
          \<and> length (ragSources r) = length [returns_match]
          \<and> map snippet (ragSources r) = map result_snippet [returns_match])"
proof -
  have "\<not> has_text textless_match" and "has_text returns_match"
    by (simp_all add: has_text_def textless_match_def returns_match_def)
  then have f: "filter has_text [textless_match, returns_match, textless_match] = [returns_match]"
    by simp
  have kb: "''KB123'' \<noteq> []" by simp
  have c: "answering_client [textless_match, returns_match, textless_match]
             (command_input ''What is your return policy?'' ''KB123'' None) =
           Fulfilled (Some \<lparr> retrievalResults = Some [textless_match, returns_match, textless_match] \<rparr>)"
    by (simp add: answering_client_def)
  have c': "answering_client [returns_match]
             (command_input ''What is your return policy?'' ''KB123'' None) =
           Fulfilled (Some \<lparr> retrievalResults =
             Some (filter has_text [textless_match, returns_match, textless_match]) \<rparr>)"
    by (simp only: answering_client_def f)
  note w = retrieveContext_excludes_textless
    [where client = "answering_client [textless_match, returns_match, textless_match]"
       and client' = "answering_client [returns_match]", OF kb c c']
  show ?thesis
    using f w [unfolded f] by (rule conjI)
qed

subsection \<open>Placeholder display names\<close>

lemma result_uri_no_segment:
  assumes "locator m = None \<or> (\<exists>u. locator m = Some u \<and> (u = [] \<or> last u = CHR ''/''))"
  shows "result_uri m = [] \<or> last (result_uri m) = CHR ''/''"
  using assms by (auto simp: result_uri_def)

lemma fileName_placeholder:
  assumes "locator m = None \<or> (\<exists>u. locator m = Some u \<and> (u = [] \<or> last u = CHR ''/''))"
  shows "fileName (to_RAGSource i m) = ''Source-'' @ string_of_nat i"
proof -
  have "result_fileName i (result_uri m) = ''Source-'' @ string_of_nat i @ ''.txt''"
    using result_uri_no_segment [OF assms] by (rule result_fileName_placeholder)
  then show ?thesis
    by (simp only: to_RAGSource_def RAGSource.simps placeholder_display_name)
qed

text \<open>
  Claim C8. For a match whose source locator is absent, empty or ends with \<open>/\<close> (so
  that the last segment of the split is empty), the source record of that match gets
  the placeholder display name \<open>Source-<index>\<close>, where the index is the position of
  the match among the matches that have text; the call does not throw: it resolves with
  \<open>isRagWorking = true\<close>.
\<close>

theorem retrieveContext_placeholder_name:
  assumes "kb \<noteq> []"
    and "client (command_input query kb n) = Fulfilled (Some \<lparr> retrievalResults = Some rs \<rparr>)"
    and "i < length (filter has_text rs)"
    and "locator (filter has_text rs ! i) = None
         \<or> (\<exists>u. locator (filter has_text rs ! i) = Some u \<and> (u = [] \<or> last u = CHR ''/''))"
  shows "\<exists>r. retrieveContext query (Some kb) n client = (Fulfilled r, [command_input query kb n])
             \<and> isRagWorking r
             \<and> length (ragSources r) = length (filter has_text rs)
             \<and> fileName (ragSources r ! i) = ''Source-'' @ string_of_nat i
             \<and> snippet (ragSources r ! i) = result_snippet (filter has_text rs ! i)"
proof -
  let ?kept = "filter has_text rs"
  let ?sources = "map (\<lambda>(index, result). to_RAGSource index result) (enumerate 0 ?kept)"
  have a: "retrieveContext query (Some kb) n client =
      (Fulfilled \<lparr> context_text = join [CHR 0x0A, CHR 0x0A] (map result_snippet ?kept),
                   isRagWorking = True,
                   ragSources = ?sources \<rparr>,
       [command_input query kb n])"
    using assms(1,2)
      retrieveContext_resolved [where kb = kb and client = client and query = query and n = n
        and response = "Some \<lparr> retrievalResults = Some rs \<rparr>"]
    by (simp add: raw_results_def)
  have s: "?sources ! i = to_RAGSource i (?kept ! i)"
    using assms(3) by (rule nth_sources)
  have f: "fileName (?sources ! i) = ''Source-'' @ string_of_nat i"
    unfolding s using assms(4) by (rule fileName_placeholder)
  have t: "snippet (?sources ! i) = result_snippet (?kept ! i)"
    unfolding s by (rule snippet_to_RAGSource)
  show ?thesis
    unfolding a using f t by simp
qed

theorem retrieveContext_placeholder_name_witness:
  "filter has_text [returns_match, textless_match, folder_match] = [returns_match, folder_match]
   \<and> locator folder_match = Some ''s3://bucket/docs/''
   \<and> string_of_nat 1 = ''1''
   \<and> (\<exists>r. retrieveContext ''How long does shipping take?'' (Some ''KB123'') None
                (answering_client [returns_match, textless_match, folder_match]) =
              (Fulfilled r, [command_input ''How long does shipping take?'' ''KB123'' None])
          \<and> isRagWorking r
          \<and> length (ragSources r) = length [returns_match, folder_match]
          \<and> fileName (ragSources r ! 1) = ''Source-'' @ string_of_nat 1
          \<and> snippet (ragSources r ! 1) = result_snippet ([returns_match, folder_match] ! 1))"
proof -
  have "has_text returns_match" and "\<not> has_text textless_match" and "has_text folder_match"
    by (simp_all add: has_text_def returns_match_def textless_match_def folder_match_def)
  then have f: "filter has_text [returns_match, textless_match, folder_match] =
      [returns_match, folder_match]"
    by simp
  have l: "locator folder_match = Some ''s3://bucket/docs/''"
    by (simp add: locator_def folder_match_def)
  have d: "string_of_nat 1 = ''1''"
    by (simp add: string_of_nat.simps digit_char_def)
  have kb: "''KB123'' \<noteq> []" by simp
  have c: "answering_client [returns_match, textless_match, folder_match]
             (command_input ''How long does shipping take?'' ''KB123'' None) =
           Fulfilled (Some \<lparr> retrievalResults = Some [returns_match, textless_match, folder_match] \<rparr>)"
    by (simp add: answering_client_def)
  have i: "1 < length (filter has_text [returns_match, textless_match, folder_match])"
    unfolding f by simp
  have h: "locator (filter has_text [returns_match, textless_match, folder_match] ! 1) = None
      \<or> (\<exists>u. locator (filter has_text [returns_match, textless_match, folder_match] ! 1) = Some u
            \<and> (u = [] \<or> last u = CHR ''/''))"
    unfolding f by (simp add: l)
  note w = retrieveContext_placeholder_name
    [where client = "answering_client [returns_match, textless_match, folder_match]", OF kb c i h]
  show ?thesis
    using f l d w [unfolded f] by (intro conjI)
qed

subsection \<open>The meaning of the flag\<close>

text \<open>The promise of \<open>retrieveContext\<close> never rejects: every throw ends in the \<open>catch\<close> block.\<close>

lemma retrieveContext_never_rejects:
  "fst (retrieveContext query kbId n client) \<noteq> Rejected e"
  by (auto simp: retrieveContext_def split: prod.splits promise.splits)

text \<open>
  Claim C1, as the code has it. Whenever \<open>retrieveContext\<close> returns, the flag
  \<open>isRagWorking\<close> is false exactly when the knowledge-base identifier is absent or
  empty (the early exit, with no remote call) or the remote call threw; every other
  returning call, a reachable service with zero matches included, has the flag true.
\<close>

theorem retrieveContext_flag:
  assumes "retrieveContext query kbId n client = (Fulfilled r, sent)"
  shows "(\<not> isRagWorking r) =
           (kbId = None \<or> kbId = Some []
            \<or> (\<exists>kb e. kbId = Some kb \<and> client (command_input query kb n) = Rejected e))"
proof (cases "kbId = None \<or> kbId = Some []")
  case True
  with assms retrieveContext_early_exit [OF True, of query n client]
  show ?thesis by (auto simp: not_working_def)
next
  case False
  then obtain kb where k: "kbId = Some kb" "kb \<noteq> []" by auto
  show ?thesis
  proof (cases "client (command_input query kb n)")
    case (Fulfilled response)
    with assms k
      retrieveContext_resolved [where kb = kb and client = client and query = query and n = n
        and response = response]
    show ?thesis by auto
  next
    case (Rejected e)
    with assms k
      retrieveContext_rejected [where kb = kb and client = client and query = query and n = n
        and e = e]
    show ?thesis by (auto simp: not_working_def)
  next
    case Pending
    with assms k
      retrieveContext_pending [where kb = kb and client = client and query = query and n = n]
    show ?thesis by auto
  qed
qed

theorem retrieveContext_flag_witness:
  "retrieveContext ''What is your return policy?'' (Some ''KB123'') None failing_client =
     (Fulfilled \<lparr> context_text = [], isRagWorking = False, ragSources = [] \<rparr>,
      [command_input ''What is your return policy?'' ''KB123'' None])
   \<and> (\<not> isRagWorking \<lparr> context_text = [], isRagWorking = False, ragSources = [] \<rparr>) =
       (Some ''KB123'' = None \<or> Some ''KB123'' = Some []
        \<or> (\<exists>kb e. Some ''KB123'' = Some kb
               \<and> failing_client (command_input ''What is your return policy?'' kb None) = Rejected e))"
proof -
  have kb: "''KB123'' \<noteq> []" by simp
  have c: "failing_client (command_input ''What is your return policy?'' ''KB123'' None) =
      Rejected (Error ''TimeoutError'' ''socket hang up'')"
    by (simp add: failing_client_def)
  have h: "retrieveContext ''What is your return policy?'' (Some ''KB123'') None failing_client =
     (Fulfilled \<lparr> context_text = [], isRagWorking = False, ragSources = [] \<rparr>,
      [command_input ''What is your return policy?'' ''KB123'' None])"
    using kb c
      retrieveContext_rejected [where kb = "''KB123''" and client = failing_client
        and query = "''What is your return policy?''" and n = None
        and e = "Error ''TimeoutError'' ''socket hang up''"]
    by (simp add: not_working_def)
  show ?thesis
    using h retrieveContext_flag [OF h] by (rule conjI)
qed

text \<open>
  The claim as stated, with a remote failure as the only cause of a false flag, fails
  on the early exit: with an empty identifier the flag is false although no command
  was sent, and the client would have answered the command with a match.
\<close>

theorem retrieveContext_flag_counterexample:
  "retrieveContext ''What is your return policy?'' (Some []) None
       (answering_client [returns_match]) =
     (Fulfilled \<lparr> context_text = [], isRagWorking = False, ragSources = [] \<rparr>, [])
   \<and> answering_client [returns_match] (command_input ''What is your return policy?'' [] None) =
       Fulfilled (Some \<lparr> retrievalResults = Some [returns_match] \<rparr>)"
  by (simp add: retrieveContext_early_exit not_working_def answering_client_def)

end
